theory Spec2Isabelle
  imports Main "HOL-Library.Word"
begin

section \<open>HoloShare API: a shallow embedding of \<open>main.py\<close>\<close>

text \<open>
  The service has four request handlers (\<open>upload_model\<close>, \<open>serve_file\<close>, \<open>get_asset\<close>,
  \<open>test_database\<close>) over two external collaborators: a directory on disk and a MongoDB
  database. Each handler becomes a function from the server state (and the choices the
  environment makes during the call: the clock, the outcome of the disk write, the
  identifier the database generates) to a result and a new state. A raised exception is
  the \<open>Inl\<close> branch of the result.
\<close>

subsection \<open>Strings\<close>

text \<open>
  A Python \<open>str\<close> is modelled as a \<open>string\<close>. The handlers only interpret ASCII
  characters (the letters of the three extensions, the dot, the path separator), so
  \<open>str.lower\<close> is modelled on the ASCII letters and leaves every other character as it is.
\<close>

type_synonym byte = "8 word"

definition upper_letters :: string where
  "upper_letters = ''ABCDEFGHIJKLMNOPQRSTUVWXYZ''"

definition lower_letters :: string where
  "lower_letters = ''abcdefghijklmnopqrstuvwxyz''"

definition lower_char :: "char \<Rightarrow> char" where
  "lower_char c = (case map_of (zip upper_letters lower_letters) c of None \<Rightarrow> c | Some d \<Rightarrow> d)"

definition lower :: "string \<Rightarrow> string" where
  "lower s = map lower_char s"

definition endswith :: "string \<Rightarrow> string \<Rightarrow> bool" where
  "endswith s suf \<longleftrightarrow> length suf \<le> length s \<and> drop (length s - length suf) s = suf"

text \<open>\<open>posixpath.join\<close> with two arguments.\<close>

definition startswith_sep :: "string \<Rightarrow> bool" where
  "startswith_sep b = (case b of [] \<Rightarrow> False | c # _ \<Rightarrow> c = CHR ''/'')"

definition endswith_sep :: "string \<Rightarrow> bool" where
  "endswith_sep a = (case rev a of [] \<Rightarrow> False | c # _ \<Rightarrow> c = CHR ''/'')"

definition path_join :: "string \<Rightarrow> string \<Rightarrow> string" where
  "path_join a b =
     (if startswith_sep b then b
      else if a = [] \<or> endswith_sep a then a @ b
      else a @ ''/'' @ b)"

subsection \<open>The clock and \<open>strftime\<close>\<close>

record datetime =
  year :: nat
  month :: nat
  day :: nat
  hour :: nat
  minute :: nat
  second :: nat
  microsecond :: nat

text \<open>
  The values \<open>datetime.now(timezone.utc)\<close> can return. Years before 1000 are left out:
  the width of \<open>%Y\<close> for them depends on the platform's C library.
\<close>

definition valid_datetime :: "datetime \<Rightarrow> bool" where
  "valid_datetime t \<longleftrightarrow>
     1000 \<le> year t \<and> year t \<le> 9999 \<and> 1 \<le> month t \<and> month t \<le> 12 \<and>
     1 \<le> day t \<and> day t \<le> 31 \<and> hour t < 24 \<and> minute t < 60 \<and> second t < 60 \<and>
     microsecond t < 1000000"

definition digits :: string where
  "digits = ''0123456789''"

definition digit_char :: "nat \<Rightarrow> char" where
  "digit_char d = digits ! (d mod 10)"

text \<open>A decimal field of fixed width, zero-padded on the left (\<open>%02d\<close> and the like).\<close>

primrec zero_padded :: "nat \<Rightarrow> nat \<Rightarrow> string" where
  "zero_padded 0 n = []"
| "zero_padded (Suc w) n = zero_padded w (n div 10) @ [digit_char n]"

text \<open>\<open>t.strftime("%Y%m%d%H%M%S%f")\<close>: twenty decimal digits.\<close>

definition strftime :: "datetime \<Rightarrow> string" where
  "strftime t =
     zero_padded 4 (year t) @ zero_padded 2 (month t) @ zero_padded 2 (day t) @
     zero_padded 2 (hour t) @ zero_padded 2 (minute t) @ zero_padded 2 (second t) @
     zero_padded 6 (microsecond t)"

subsection \<open>Documents and the database handle\<close>

datatype field_value = V_null | V_str string | V_int int | V_datetime datetime

type_synonym document = "string \<rightharpoonup> field_value"

text \<open>
  An \<open>ObjectId\<close> is kept in the form \<open>str\<close> prints it: 24 lower-case hexadecimal digits.
  \<open>ObjectId(s)\<close> of the \<open>bson\<close> package accepts a string of 24 hexadecimal digits of
  either case and raises \<open>InvalidId\<close> on any other string; two identifiers are equal
  when their twelve bytes are.
\<close>

type_synonym oid = string

definition hex_digits :: string where
  "hex_digits = ''0123456789abcdefABCDEF''"

definition ObjectId :: "string \<Rightarrow> oid option" where
  "ObjectId s = (if length s = 24 \<and> list_all (\<lambda>c. c \<in> set hex_digits) s
                 then Some (lower s) else None)"

definition wf_oid :: "oid \<Rightarrow> bool" where
  "wf_oid i \<longleftrightarrow> length i = 24 \<and> list_all (\<lambda>c. c \<in> set ''0123456789abcdef'') i"

text \<open>
  What an attribute access on the handle can do: the attribute is absent, it has a value,
  or computing it raises an exception with the given message.
\<close>

datatype 'a attr = Attr_missing | Attr_value 'a | Attr_raises string

text \<open>
  The \<open>db\<close> object imported from \<open>database\<close>, as far as \<open>main.py\<close> looks at it: its
  \<open>name\<close> attribute, what \<open>list_collection_names()\<close> does (\<open>Inl msg\<close>: it raises an
  exception whose \<open>str\<close> is \<open>msg\<close>), and its collections, each a map from \<open>_id\<close> to the
  other fields of the document.
\<close>

record db_handle =
  db_name :: "string attr"
  list_collection_names :: "string + string list"
  colls :: "string \<Rightarrow> oid \<rightharpoonup> document"

subsection \<open>Server state, requests and results\<close>

text \<open>
  The working directory read at import time, the regular files on disk (path to content),
  the database handle (\<open>None\<close> when \<open>database.db\<close> is \<open>None\<close>) and the process environment.
\<close>

record state =
  cwd :: string
  files :: "string \<rightharpoonup> byte list"
  db :: "db_handle option"
  environ :: "string \<rightharpoonup> string"

text \<open>
  How the \<open>open\<close>/\<open>write\<close> pair of an upload ends: both succeed; \<open>open\<close> raises and no file
  is created; or \<open>open\<close> creates the file and the write raises after the given number of
  bytes reached it.
\<close>

datatype disk_outcome = Disk_ok | Open_fails | Write_fails nat

record env =
  now :: datetime
  disk :: disk_outcome
  new_oid :: oid
  insert_time :: datetime

record upload_file =
  filename :: string
  content_type :: "string option"
  content :: "byte list"

datatype failure = HTTPException nat string | Unhandled string

record upload_response =
  id_str :: string
  url :: string

record asset_view =
  asset_id :: string
  asset_url :: field_value

fun status_code :: "failure + 'a \<Rightarrow> nat" where
  "status_code (Inl (HTTPException c d)) = c"
| "status_code (Inl (Unhandled e)) = 500"
| "status_code (Inr r) = 200"

definition STORAGE_DIR :: "state \<Rightarrow> string" where
  "STORAGE_DIR st = path_join (cwd st) ''uploads''"

subsection \<open>\<open>create_document\<close>\<close>

text \<open>
  Modelled from the spec: \<open>create_document\<close> of \<open>database.py\<close>, which is not among the
  sources. The spec (4.2, insert): it inserts a new document into the named collection
  with the given fields plus a server-set creation timestamp, and returns the newly
  generated identifier as a string; without a database connection metadata operations
  fail (6, 7).
\<close>

definition create_document ::
  "env \<Rightarrow> db_handle option \<Rightarrow> string \<Rightarrow> document \<Rightarrow> failure + (string \<times> db_handle)" where
  "create_document e dbo collection_name data =
     (case dbo of
        None \<Rightarrow> Inl (Unhandled ''Database not available'')
      | Some d \<Rightarrow>
          Inr (new_oid e,
               d\<lparr>colls := (colls d)(collection_name :=
                    (colls d collection_name)(new_oid e \<mapsto>
                       data(''created_at'' \<mapsto> V_datetime (insert_time e))))\<rparr>))"

subsection \<open>POST /upload\<close>

definition allowed_extension :: "string \<Rightarrow> bool" where
  "allowed_extension name \<longleftrightarrow>
     (let name_lower = lower name
      in endswith name_lower ''.glb'' \<or> endswith name_lower ''.gltf''
         \<or> endswith name_lower ''.usdz'')"

definition save_name :: "datetime \<Rightarrow> string \<Rightarrow> string" where
  "save_name t fname = strftime t @ ''_'' @ fname"

definition save_path :: "state \<Rightarrow> datetime \<Rightarrow> string \<Rightarrow> string" where
  "save_path st t fname = path_join (STORAGE_DIR st) (save_name t fname)"

definition public_url :: "datetime \<Rightarrow> string \<Rightarrow> string" where
  "public_url t fname = ''/files/'' @ save_name t fname"

text \<open>
  \<open>with open(save_path, 'wb') as f: f.write(content)\<close>: the exception raised, if any,
  and the files afterwards.
\<close>

fun write_file :: "disk_outcome \<Rightarrow> (string \<rightharpoonup> byte list) \<Rightarrow> string \<Rightarrow> byte list
    \<Rightarrow> failure option \<times> (string \<rightharpoonup> byte list)" where
  "write_file Disk_ok fs p bs = (None, fs(p \<mapsto> bs))"
| "write_file Open_fails fs p bs = (Some (Unhandled ''OSError''), fs)"
| "write_file (Write_fails n) fs p bs = (Some (Unhandled ''OSError''), fs(p \<mapsto> take n bs))"

definition metadata :: "state \<Rightarrow> datetime \<Rightarrow> upload_file \<Rightarrow> document" where
  "metadata st t file =
     [''filename'' \<mapsto> V_str (filename file),
      ''content_type'' \<mapsto> (case content_type file of None \<Rightarrow> V_null | Some c \<Rightarrow> V_str c),
      ''size_bytes'' \<mapsto> V_int (int (length (content file))),
      ''url'' \<mapsto> V_str (public_url t (filename file)),
      ''storage_path'' \<mapsto> V_str (save_path st t (filename file))]"

definition upload_model :: "env \<Rightarrow> state \<Rightarrow> upload_file \<Rightarrow> (failure + upload_response) \<times> state" where
  "upload_model e st file =
     (if \<not> allowed_extension (filename file)
      then (Inl (HTTPException 400 ''Only .glb, .gltf, .usdz files are supported''), st)
      else
        let p = save_path st (now e) (filename file);
            (raised, fs) = write_file (disk e) (files st) p (content file);
            st1 = st\<lparr>files := fs\<rparr>
        in case raised of
             Some err \<Rightarrow> (Inl err, st1)
           | None \<Rightarrow>
               (case create_document e (db st1) ''asset'' (metadata st (now e) file) of
                  Inl err \<Rightarrow> (Inl err, st1)
                | Inr (doc_id, d) \<Rightarrow>
                    (Inr \<lparr>id_str = doc_id, url = public_url (now e) (filename file)\<rparr>,
                     st1\<lparr>db := Some d\<rparr>)))"

subsection \<open>GET /files/{filename}\<close>


subsection \<open>GET /asset/{id}\<close>

text \<open>
  \<open>db["asset"]\<close> on a \<open>None\<close> handle raises \<open>TypeError\<close>. A document that \<open>find_one\<close>
  returns always carries its \<open>_id\<close>, so \<open>not doc\<close> holds only for \<open>None\<close>.
\<close>

definition doc_get :: "document \<Rightarrow> string \<Rightarrow> field_value" where
  "doc_get doc k = (case doc k of None \<Rightarrow> V_null | Some v \<Rightarrow> v)"

definition get_asset :: "state \<Rightarrow> string \<Rightarrow> failure + asset_view" where
  "get_asset st i =
     (case ObjectId i of
        None \<Rightarrow> Inl (HTTPException 400 ''Invalid id'')
      | Some oid \<Rightarrow>
          (case db st of
             None \<Rightarrow> Inl (Unhandled ''TypeError'')
           | Some d \<Rightarrow>
               (case colls d ''asset'' oid of
                  None \<Rightarrow> Inl (HTTPException 404 ''Not found or expired'')
                | Some doc \<Rightarrow> Inr \<lparr>asset_id = i, asset_url = doc_get doc ''url''\<rparr>)))"

subsection \<open>GET /test\<close>

text \<open>
  The texts the diagnostic writes into its response are kept as tags. For the
  \<open>database\<close> entry, in the order of the constructors: "Not Available" (cross mark),
  "Available" (check mark), "Connected & Working" (check mark), "Connected but Error: "
  followed by the first 50 characters of the message (warning sign), "Available but not
  initialized" (warning sign), "Error: " followed by the first 50 characters of the
  message (cross mark). For \<open>database_url\<close> and \<open>database_name\<close>: \<open>None\<close>,
  "Configured", "Connected", the name of the database, "Set", "Not Set".
\<close>

datatype database_field =
  Not_Available | Available | Connected_Working | Connected_Error string
  | Not_Initialized | Error string

datatype config_field = Cfg_none | Configured | Connected | Db_name string | Is_set | Not_set

record test_response =
  backend :: string
  database :: database_field
  database_url :: config_field
  database_name :: config_field
  connection_status :: string
  collections :: "string list"

definition initial_response :: test_response where
  "initial_response =
     \<lparr>backend = ''Running'', database = Not_Available, database_url = Cfg_none,
      database_name = Cfg_none, connection_status = ''Not Connected'', collections = []\<rparr>"

text \<open>
  The body of the outer \<open>try\<close>: the message of the exception that leaves it, if any, and
  the response dictionary as the body left it. \<open>hasattr\<close> answers \<open>False\<close> for an absent
  attribute and lets any other exception through; the inner \<open>try\<close> catches whatever
  \<open>list_collection_names\<close> raises.
\<close>

definition name_or_connected :: "string attr \<Rightarrow> config_field" where
  "name_or_connected a = (case a of Attr_value n \<Rightarrow> Db_name n | _ \<Rightarrow> Connected)"

definition list_collections :: "db_handle \<Rightarrow> test_response \<Rightarrow> test_response" where
  "list_collections d r =
     (case list_collection_names d of
        Inr cs \<Rightarrow> r\<lparr>collections := take 10 cs, database := Connected_Working\<rparr>
      | Inl msg \<Rightarrow> r\<lparr>database := Connected_Error (take 50 msg)\<rparr>)"

definition probe :: "db_handle option \<Rightarrow> test_response \<Rightarrow> string option \<times> test_response" where
  "probe dbo r =
     (case dbo of
        None \<Rightarrow> (None, r\<lparr>database := Not_Initialized\<rparr>)
      | Some d \<Rightarrow>
          (let r1 = r\<lparr>database := Available, database_url := Configured\<rparr>
           in case db_name d of
                Attr_raises msg \<Rightarrow> (Some msg, r1)
              | a \<Rightarrow> (None, list_collections d
                                (r1\<lparr>database_name := name_or_connected a\<rparr>))))"

text \<open>\<open>os.getenv(k)\<close> in a condition: the variable is set and not empty.\<close>

definition getenv_truthy :: "state \<Rightarrow> string \<Rightarrow> bool" where
  "getenv_truthy st k = (case environ st k of None \<Rightarrow> False | Some v \<Rightarrow> v \<noteq> [])"

definition test_database :: "state \<Rightarrow> failure + test_response" where
  "test_database st =
     (let (raised, r) = probe (db st) initial_response;
          r1 = (case raised of None \<Rightarrow> r | Some msg \<Rightarrow> r\<lparr>database := Error (take 50 msg)\<rparr>);
          r2 = r1\<lparr>database_url :=
                    (if getenv_truthy st ''DATABASE_URL'' then Is_set else Not_set)\<rparr>;
          r3 = r2\<lparr>database_name :=
                    (if getenv_truthy st ''DATABASE_NAME'' then Is_set else Not_set)\<rparr>
      in Inr r3)"

subsection \<open>Sequences of requests\<close>

text \<open>
  Only an upload changes the state; the three \<open>GET\<close> handlers read it.
\<close>

datatype request = Upload env upload_file | Get_file string | Get_asset string | Get_test

fun handle :: "request \<Rightarrow> state \<Rightarrow> state" where
  "handle (Upload e f) st = snd (upload_model e st f)"
| "handle (Get_file n) st = st"
| "handle (Get_asset i) st = st"
| "handle Get_test st = st"

definition run :: "request list \<Rightarrow> state \<Rightarrow> state" where
  "run reqs st = fold handle reqs st"

text \<open>The request makes the database generate identifier \<open>i\<close>.\<close>

fun generates :: "oid \<Rightarrow> request \<Rightarrow> bool" where
  "generates i (Upload e f) = (new_oid e = i)"
| "generates i (Get_file n) = False"
| "generates i (Get_asset j) = False"
| "generates i Get_test = False"


subsection \<open>Notions of the specification\<close>

text \<open>
  The extension of a file name, as the specification uses the word: the part from the
  last dot to the end, empty when the name has no dot.
\<close>

definition extension :: "string \<Rightarrow> string" where
  "extension name =
     (if CHR ''.'' \<in> set name
      then CHR ''.'' # rev (takeWhile (\<lambda>c. c \<noteq> CHR ''.'') (rev name))
      else [])"





subsection \<open>A concrete server\<close>

definition t0 :: datetime where
  "t0 = \<lparr>year = 2024, month = 5, day = 17, hour = 9, minute = 30, second = 15,
         microsecond = 123456\<rparr>"

definition t1 :: datetime where
  "t1 = t0\<lparr>microsecond := 123457\<rparr>"

definition db0 :: db_handle where
  "db0 = \<lparr>db_name = Attr_value ''holoshare'', list_collection_names = Inr [''asset''],
          colls = (\<lambda>c. Map.empty)\<rparr>"

definition st0 :: state where
  "st0 = \<lparr>cwd = ''/srv/app'', files = Map.empty, db = Some db0, environ = Map.empty\<rparr>"

definition env0 :: env where
  "env0 = \<lparr>now = t0, disk = Disk_ok, new_oid = ''665f1c0ffee0123456789abc'',
           insert_time = t0\<rparr>"

definition env1 :: env where
  "env1 = \<lparr>now = t1, disk = Disk_ok, new_oid = ''665f1c0ffee0123456789abd'',
           insert_time = t1\<rparr>"

definition file0 :: upload_file where
  "file0 = \<lparr>filename = ''model.glb'', content_type = Some ''model/gltf-binary'',
            content = [103, 108, 84, 70, 2, 0, 0, 0, 10, 0]\<rparr>"

text \<open>A database holding one record that has no \<open>url\<close> field.\<close>

definition st_legacy :: state where
  "st_legacy =
     st0\<lparr>db := Some (db0\<lparr>colls := (\<lambda>c. [''665f1c0ffee0123456789abc'' \<mapsto>
                                          [''filename'' \<mapsto> V_str ''legacy.glb'']])\<rparr>)\<rparr>"

section \<open>Properties\<close>

subsection \<open>The extension check\<close>

lemma lower_char_dot: "lower_char c = CHR ''.'' \<longleftrightarrow> c = CHR ''.''"
  by (auto simp: lower_char_def upper_letters_def lower_letters_def split: if_splits)

lemma lower_char_dot_self: "lower_char (CHR ''.'') = CHR ''.''"
  by (simp add: lower_char_def upper_letters_def lower_letters_def)

lemma endswith_iff: "endswith s suf \<longleftrightarrow> (\<exists>pre. s = pre @ suf)"
  unfolding endswith_def
  by (metis append_eq_conv_conj append_take_drop_id diff_add_inverse2
      length_append length_drop le_add2)

lemma extension_append_dot:
  assumes "CHR ''.'' \<notin> set n2"
  shows "extension (n1 @ CHR ''.'' # n2) = CHR ''.'' # n2"
proof -
  have all: "\<forall>x\<in>set (rev n2). x \<noteq> CHR ''.''"
    using assms by fastforce
  have "takeWhile (\<lambda>c. c \<noteq> CHR ''.'') (rev n2 @ CHR ''.'' # rev n1)
        = takeWhile (\<lambda>c. c \<noteq> CHR ''.'') (rev n2)"
    by (rule takeWhile_tail) simp
  also have "\<dots> = rev n2"
    using all by (simp only: takeWhile_eq_all_conv)
  finally have "takeWhile (\<lambda>c. c \<noteq> CHR ''.'') (rev n2 @ CHR ''.'' # rev n1) = rev n2" .
  then show ?thesis by (simp add: extension_def)
qed

lemma takeWhile_lower:
  "takeWhile (\<lambda>c. c \<noteq> CHR ''.'') (map lower_char xs)
   = map lower_char (takeWhile (\<lambda>c. c \<noteq> CHR ''.'') xs)"
  by (induction xs) (simp_all add: lower_char_dot)

lemma dot_in_lower: "CHR ''.'' \<in> set (map lower_char xs) \<longleftrightarrow> CHR ''.'' \<in> set xs"
  by (induction xs) (simp_all add: lower_char_dot eq_commute [of "CHR ''.''"])

lemma lower_extension_commute: "lower (extension name) = extension (lower name)"
  by (simp add: extension_def lower_def dot_in_lower lower_char_dot_self
      rev_map takeWhile_lower del: set_map)

lemma lower_extension:
  assumes low: "lower name = pre @ CHR ''.'' # suf" and nodot: "CHR ''.'' \<notin> set suf"
  shows "lower (extension name) = CHR ''.'' # suf"
proof -
  have "lower (extension name) = extension (pre @ CHR ''.'' # suf)"
    by (simp only: lower_extension_commute low)
  also have "\<dots> = CHR ''.'' # suf"
    using nodot by (rule extension_append_dot)
  finally show ?thesis .
qed

text \<open>
  The three suffix tests of the handler accept a name only if its extension, in lower
  case, is one of the three.
\<close>

lemma allowed_extension_lower_extension:
  assumes "allowed_extension name"
  shows "lower (extension name) \<in> {''.glb'', ''.gltf'', ''.usdz''}"
proof -
  from assms consider "endswith (lower name) ''.glb''" | "endswith (lower name) ''.gltf''"
    | "endswith (lower name) ''.usdz''"
    by (auto simp: allowed_extension_def Let_def)
  then show ?thesis
  proof cases
    case 1
    then obtain pre where "lower name = pre @ CHR ''.'' # ''glb''" by (auto simp: endswith_iff)
    then have "lower (extension name) = CHR ''.'' # ''glb''" by (rule lower_extension) simp
    then show ?thesis by simp
  next
    case 2
    then obtain pre where "lower name = pre @ CHR ''.'' # ''gltf''" by (auto simp: endswith_iff)
    then have "lower (extension name) = CHR ''.'' # ''gltf''" by (rule lower_extension) simp
    then show ?thesis by simp
  next
    case 3
    then obtain pre where "lower name = pre @ CHR ''.'' # ''usdz''" by (auto simp: endswith_iff)
    then have "lower (extension name) = CHR ''.'' # ''usdz''" by (rule lower_extension) simp
    then show ?thesis by simp
  qed
qed

text \<open>
  C3. An upload whose file name has an extension other than \<open>.glb\<close>, \<open>.gltf\<close> or
  \<open>.usdz\<close>, compared without regard to case, is answered with status 400 and leaves
  the whole state as it was: no file is created and no metadata record.
\<close>

theorem upload_rejects_other_extensions:
  assumes "lower (extension (filename file)) \<notin> {''.glb'', ''.gltf'', ''.usdz''}"
  shows "status_code (fst (upload_model e st file)) = 400 \<and> snd (upload_model e st file) = st"
proof -
  from assms have "\<not> allowed_extension (filename file)"
    using allowed_extension_lower_extension by blast
  then show ?thesis by (simp add: upload_model_def)
qed

theorem upload_rejects_other_extensions_witness:
  "lower (extension (filename (file0\<lparr>filename := ''scene.OBJ''\<rparr>)))
     \<notin> {''.glb'', ''.gltf'', ''.usdz''} \<and>
   status_code (fst (upload_model env0 st0 (file0\<lparr>filename := ''scene.OBJ''\<rparr>))) = 400 \<and>
   snd (upload_model env0 st0 (file0\<lparr>filename := ''scene.OBJ''\<rparr>)) = st0"
proof -
  have h: "lower (extension (filename (file0\<lparr>filename := ''scene.OBJ''\<rparr>)))
     \<notin> {''.glb'', ''.gltf'', ''.usdz''}"
    by code_simp
  from upload_rejects_other_extensions [OF h, of env0 st0] h show ?thesis
    by (simp only: simp_thms)
qed

subsection \<open>The concrete server, evaluated\<close>

lemma st0_simps:
  "cwd st0 = ''/srv/app''" "files st0 = Map.empty" "db st0 = Some db0" "environ st0 = Map.empty"
  by (simp_all add: st0_def)

lemma env0_simps:
  "now env0 = t0" "disk env0 = Disk_ok" "new_oid env0 = ''665f1c0ffee0123456789abc''"
  "insert_time env0 = t0"
  by (simp_all add: env0_def)

lemma env1_simps:
  "now env1 = t1" "disk env1 = Disk_ok" "new_oid env1 = ''665f1c0ffee0123456789abd''"
  "insert_time env1 = t1"
  by (simp_all add: env1_def)

lemma file0_simps:
  "filename file0 = ''model.glb''" "content_type file0 = Some ''model/gltf-binary''"
  "content file0 = [103, 108, 84, 70, 2, 0, 0, 0, 10, 0]"
  by (simp_all add: file0_def)

lemma zero_padded_numeral:
  "zero_padded (numeral k) n = zero_padded (pred_numeral k) (n div 10) @ [digit_char n]"
  by (simp only: numeral_eq_Suc [of k] zero_padded.simps)

lemma zero_padded_1: "zero_padded 1 n = [digit_char n]"
  by (simp only: One_nat_def zero_padded.simps append_Nil)

lemma strftime_t0: "strftime t0 = ''20240517093015123456''"
  by (simp add: strftime_def t0_def zero_padded_numeral zero_padded_1 digit_char_def digits_def)

lemma strftime_t1: "strftime t1 = ''20240517093015123457''"
  by (simp add: strftime_def t0_def t1_def zero_padded_numeral zero_padded_1 digit_char_def
      digits_def)

lemma allowed_file0: "allowed_extension (filename file0)"
  by code_simp


subsection \<open>What an upload does to the state\<close>

lemma upload_model_success:
  assumes "upload_model e st f = (Inr r, st')"
  shows "allowed_extension (filename f) \<and> disk e = Disk_ok \<and>
         (\<exists>d. db st = Some d \<and>
            r = \<lparr>id_str = new_oid e, url = public_url (now e) (filename f)\<rparr> \<and>
            st' = st\<lparr>files := (files st)(save_path st (now e) (filename f) \<mapsto> content f),
                      db := Some (d\<lparr>colls := (colls d)(''asset'' :=
                         (colls d ''asset'')(new_oid e \<mapsto>
                            (metadata st (now e) f)(''created_at'' \<mapsto> V_datetime (insert_time e))))\<rparr>)\<rparr>)"
proof (cases "disk e")
  case Disk_ok
  with assms show ?thesis
    by (cases "db st") (auto simp: upload_model_def create_document_def Let_def split: if_splits)
next
  case Open_fails
  with assms show ?thesis
    by (auto simp: upload_model_def Let_def split: if_splits)
next
  case (Write_fails n)
  with assms show ?thesis
    by (auto simp: upload_model_def Let_def split: if_splits)
qed

lemma upload_model_result:
  assumes "fst (upload_model e st f) = Inr r"
  shows "upload_model e st f = (Inr r, snd (upload_model e st f))"
  using assms by (metis prod.collapse)

lemma upload_model_ok:
  assumes "allowed_extension (filename f)" and "disk e = Disk_ok" and "db st = Some d"
  shows "fst (upload_model e st f)
         = Inr \<lparr>id_str = new_oid e, url = public_url (now e) (filename f)\<rparr>"
  using assms by (simp add: upload_model_def create_document_def Let_def)

lemma upload_model_db_Some:
  assumes "fst (upload_model e st f) = Inr r"
  shows "\<exists>d. db (snd (upload_model e st f)) = Some d"
  using upload_model_success [OF upload_model_result [OF assms]] by auto

lemma upload_model_cwd: "cwd (snd (upload_model e st f)) = cwd st"
  by (cases "disk e"; cases "db st")
     (simp_all add: upload_model_def create_document_def Let_def)

lemma upload_model_files_other:
  "p \<noteq> save_path st (now e) (filename f) \<Longrightarrow> files (snd (upload_model e st f)) p = files st p"
  by (cases "disk e"; cases "db st")
     (simp_all add: upload_model_def create_document_def Let_def)

lemma upload_model_colls_other:
  assumes "db st = Some d" and "new_oid e \<noteq> i"
  shows "\<exists>d'. db (snd (upload_model e st f)) = Some d' \<and> colls d' ''asset'' i = colls d ''asset'' i"
  using assms
  by (cases "disk e")
     (simp_all add: upload_model_def create_document_def Let_def)

lemma upload0:
  "fst (upload_model env0 st0 file0)
   = Inr \<lparr>id_str = ''665f1c0ffee0123456789abc'', url = ''/files/20240517093015123456_model.glb''\<rparr>"
  using upload_model_ok [OF allowed_file0, of env0 st0 db0]
  by (simp add: public_url_def save_name_def strftime_t0 st0_simps env0_simps file0_simps)

text \<open>
  C4. When the write to disk fails (\<open>open\<close> raises, or the write raises after some of the
  bytes), the upload does not answer 200 and the database is exactly as before: the
  metadata record is inserted only after the write has succeeded.
\<close>

theorem no_record_when_write_fails:
  assumes "disk e \<noteq> Disk_ok"
  shows "db (snd (upload_model e st file)) = db st \<and>
         status_code (fst (upload_model e st file)) \<noteq> 200"
  using assms by (cases "disk e") (simp_all add: upload_model_def Let_def)

theorem no_record_when_write_fails_witness:
  "disk (env0\<lparr>disk := Write_fails 4\<rparr>) \<noteq> Disk_ok \<and>
   db (snd (upload_model (env0\<lparr>disk := Write_fails 4\<rparr>) st0 file0)) = Some db0 \<and>
   status_code (fst (upload_model (env0\<lparr>disk := Write_fails 4\<rparr>) st0 file0)) \<noteq> 200"
proof -
  have h: "disk (env0\<lparr>disk := Write_fails 4\<rparr>) \<noteq> Disk_ok" by simp
  from no_record_when_write_fails [OF h, of st0 file0] h show ?thesis
    by (simp only: st0_simps simp_thms)
qed

subsection \<open>Storage names and paths\<close>

lemma length_digits: "length digits = 10"
  by (simp add: digits_def)

lemma distinct_digits: "distinct digits"
  by (simp add: digits_def)

lemma sep_not_digit: "CHR ''/'' \<notin> set digits"
  by (simp add: digits_def)

lemma digit_char_in_digits: "digit_char n \<in> set digits"
  unfolding digit_char_def by (rule nth_mem) (simp add: length_digits)

lemma digit_char_inj: "digit_char n = digit_char m \<longleftrightarrow> n mod 10 = m mod 10"
  unfolding digit_char_def
  by (rule nth_eq_iff_index_eq [OF distinct_digits]) (simp_all add: length_digits)

lemma set_zero_padded: "set (zero_padded w n) \<subseteq> set digits"
  by (induction w arbitrary: n) (simp_all add: digit_char_in_digits)

lemma length_zero_padded: "length (zero_padded w n) = w"
  by (induction w arbitrary: n) simp_all

lemma set_strftime: "set (strftime t) \<subseteq> set digits"
  by (simp add: strftime_def set_zero_padded)

lemma length_strftime: "length (strftime t) = 20"
  by (simp add: strftime_def length_zero_padded)

text \<open>A field of width \<open>w\<close> determines a number below \<open>10 ^ w\<close>.\<close>

lemma zero_padded_inj:
  assumes "n < 10 ^ w" and "m < 10 ^ w" and "zero_padded w n = zero_padded w m"
  shows "n = m"
  using assms
proof (induction w arbitrary: n m)
  case 0
  then show ?case by simp
next
  case (Suc w)
  from Suc.prems(3) have eq: "zero_padded w (n div 10) = zero_padded w (m div 10)"
    and last: "digit_char n = digit_char m"
    by simp_all
  from Suc.prems(1,2) have "n div 10 < 10 ^ w" and "m div 10 < 10 ^ w"
    by (simp_all add: less_mult_imp_div_less mult.commute)
  from Suc.IH [OF this eq] have d: "n div 10 = m div 10" .
  from last have r: "n mod 10 = m mod 10"
    by (simp only: digit_char_inj)
  from d r show ?case
    by (metis div_mult_mod_eq)
qed

lemma strftime_inj:
  assumes v: "valid_datetime t" and v': "valid_datetime t'" and eq: "strftime t = strftime t'"
  shows "t = t'"
proof -
  from eq have
    y: "zero_padded 4 (year t) = zero_padded 4 (year t')" and
    mo: "zero_padded 2 (month t) = zero_padded 2 (month t')" and
    d: "zero_padded 2 (day t) = zero_padded 2 (day t')" and
    h: "zero_padded 2 (hour t) = zero_padded 2 (hour t')" and
    mi: "zero_padded 2 (minute t) = zero_padded 2 (minute t')" and
    s: "zero_padded 2 (second t) = zero_padded 2 (second t')" and
    us: "zero_padded 6 (microsecond t) = zero_padded 6 (microsecond t')"
    by (simp_all add: strftime_def append_eq_append_conv length_zero_padded)
  from v v' have "year t = year t'"
    by (intro zero_padded_inj [OF _ _ y]) (simp_all add: valid_datetime_def)
  moreover from v v' have "month t = month t'"
    by (intro zero_padded_inj [OF _ _ mo]) (simp_all add: valid_datetime_def)
  moreover from v v' have "day t = day t'"
    by (intro zero_padded_inj [OF _ _ d]) (simp_all add: valid_datetime_def)
  moreover from v v' have "hour t = hour t'"
    by (intro zero_padded_inj [OF _ _ h]) (simp_all add: valid_datetime_def)
  moreover from v v' have "minute t = minute t'"
    by (intro zero_padded_inj [OF _ _ mi]) (simp_all add: valid_datetime_def)
  moreover from v v' have "second t = second t'"
    by (intro zero_padded_inj [OF _ _ s]) (simp_all add: valid_datetime_def)
  moreover from v v' have "microsecond t = microsecond t'"
    by (intro zero_padded_inj [OF _ _ us]) (simp_all add: valid_datetime_def)
  ultimately show ?thesis by simp
qed

lemma save_name_eq_iff:
  "save_name t f = save_name t' f' \<longleftrightarrow> strftime t = strftime t' \<and> f = f'"
  by (simp add: save_name_def append_eq_append_conv length_strftime)

lemma save_name_no_leading_sep: "\<not> startswith_sep (save_name t fname)"
proof -
  have "strftime t \<noteq> []"
    using length_strftime [of t] by auto
  then obtain c cs where eq: "strftime t = c # cs"
    by (cases "strftime t") auto
  then have "c \<in> set digits"
    using set_strftime [of t] by auto
  then have "c \<noteq> CHR ''/''"
    using sep_not_digit by auto
  then show ?thesis
    by (simp add: save_name_def eq startswith_sep_def)
qed

lemma path_join_inj:
  assumes "\<not> startswith_sep a" and "\<not> startswith_sep b" and "path_join r a = path_join r b"
  shows "a = b"
  using assms by (simp add: path_join_def split: if_splits)

lemma save_path_cwd: "cwd st = cwd st' \<Longrightarrow> save_path st t f = save_path st' t f"
  by (simp add: save_path_def STORAGE_DIR_def)

lemma save_path_inj:
  assumes "cwd st = cwd st'" and "save_path st t f = save_path st' t' f'"
  shows "save_name t f = save_name t' f'"
proof -
  from assms have "path_join (STORAGE_DIR st) (save_name t f)
      = path_join (STORAGE_DIR st) (save_name t' f')"
    by (simp add: save_path_def STORAGE_DIR_def)
  then show ?thesis
    by (rule path_join_inj [OF save_name_no_leading_sep save_name_no_leading_sep])
qed



subsection \<open>Later requests\<close>



lemma handle_colls_other:
  assumes "db st = Some d" and "\<not> generates i q"
  shows "\<exists>d'. db (handle q st) = Some d' \<and> colls d' ''asset'' i = colls d ''asset'' i"
  using assms by (cases q) (simp_all add: upload_model_colls_other)

lemma run_colls_other:
  assumes "db st = Some d" and "\<not> list_ex (generates i) reqs"
  shows "\<exists>d'. db (run reqs st) = Some d' \<and> colls d' ''asset'' i = colls d ''asset'' i"
  using assms
proof (induction reqs arbitrary: st d)
  case Nil
  then show ?case by (simp add: run_def)
next
  case (Cons q reqs)
  from Cons.prems have nq: "\<not> generates i q" and rest: "\<not> list_ex (generates i) reqs"
    by simp_all
  from handle_colls_other [OF Cons.prems(1) nq]
  obtain d1 where d1: "db (handle q st) = Some d1"
    and same: "colls d1 ''asset'' i = colls d ''asset'' i"
    by blast
  from Cons.IH [OF d1 rest] same show ?case
    by (simp add: run_def)
qed



subsection \<open>Identifiers\<close>

lemma lower_hex: "c \<in> set ''0123456789abcdef'' \<Longrightarrow> lower_char c = c"
  by (simp, elim disjE) (simp_all add: lower_char_def upper_letters_def lower_letters_def)

text \<open>The string form of an identifier parses back to the identifier.\<close>

lemma ObjectId_wf:
  assumes "wf_oid i"
  shows "ObjectId i = Some i"
proof -
  from assms have len: "length i = 24" and all: "\<forall>c\<in>set i. c \<in> set ''0123456789abcdef''"
    by (simp_all add: wf_oid_def list_all_iff)
  have "set ''0123456789abcdef'' \<subseteq> set hex_digits"
    by (simp add: hex_digits_def)
  with all have "\<forall>c\<in>set i. c \<in> set hex_digits"
    by (meson subsetD)
  moreover from all have "map lower_char i = i"
    by (intro map_idI) (simp add: lower_hex)
  ultimately show ?thesis using len
    by (simp add: ObjectId_def list_all_iff lower_def)
qed

lemma ObjectId_upper_case:
  "ObjectId ''665F1C0FFEE0123456789ABC'' = Some ''665f1c0ffee0123456789abc''"
  by (simp add: ObjectId_def hex_digits_def lower_def lower_char_def upper_letters_def
      lower_letters_def)

subsection \<open>From an upload to its later retrieval\<close>

text \<open>
  C1. After a successful upload, and after any further requests that do not make the
  database hand out the same identifier again, \<open>GET /asset/{id}\<close> with the identifier
  the upload returned answers with that identifier and the url the upload returned.
  Expiry of records lies outside the server and is not a step of the model.
\<close>

theorem uploaded_id_resolves:
  assumes ok: "fst (upload_model e st file) = Inr r"
    and wf: "wf_oid (new_oid e)"
    and fresh: "\<not> list_ex (generates (new_oid e)) reqs"
  shows "get_asset (run reqs (snd (upload_model e st file))) (id_str r)
         = Inr \<lparr>asset_id = id_str r, asset_url = V_str (url r)\<rparr>"
proof -
  from upload_model_success [OF upload_model_result [OF ok]]
  obtain d where r: "r = \<lparr>id_str = new_oid e, url = public_url (now e) (filename file)\<rparr>"
    and st': "snd (upload_model e st file)
       = st\<lparr>files := (files st)(save_path st (now e) (filename file) \<mapsto> content file),
            db := Some (d\<lparr>colls := (colls d)(''asset'' :=
               (colls d ''asset'')(new_oid e \<mapsto>
                  (metadata st (now e) file)(''created_at'' \<mapsto> V_datetime (insert_time e))))\<rparr>)\<rparr>"
    by blast
  define d1 where "d1 = d\<lparr>colls := (colls d)(''asset'' :=
               (colls d ''asset'')(new_oid e \<mapsto>
                  (metadata st (now e) file)(''created_at'' \<mapsto> V_datetime (insert_time e))))\<rparr>"
  have db1: "db (snd (upload_model e st file)) = Some d1"
    by (simp add: st' d1_def)
  from run_colls_other [OF db1 fresh]
  obtain d2 where db2: "db (run reqs (snd (upload_model e st file))) = Some d2"
    and same: "colls d2 ''asset'' (new_oid e) = colls d1 ''asset'' (new_oid e)"
    by blast
  have doc: "colls d1 ''asset'' (new_oid e)
      = Some ((metadata st (now e) file)(''created_at'' \<mapsto> V_datetime (insert_time e)))"
    by (simp add: d1_def)
  have u: "doc_get ((metadata st (now e) file)(''created_at'' \<mapsto> V_datetime (insert_time e))) ''url''
      = V_str (public_url (now e) (filename file))"
    by (simp add: doc_get_def metadata_def)
  show ?thesis
    by (simp add: get_asset_def ObjectId_wf [OF wf] r db2 same doc u)
qed

theorem uploaded_id_resolves_witness:
  "fst (upload_model env0 st0 file0)
     = Inr \<lparr>id_str = ''665f1c0ffee0123456789abc'', url = ''/files/20240517093015123456_model.glb''\<rparr> \<and>
   wf_oid (new_oid env0) \<and>
   \<not> list_ex (generates (new_oid env0)) [Upload env1 file0, Get_test] \<and>
   get_asset (run [Upload env1 file0, Get_test] (snd (upload_model env0 st0 file0)))
       ''665f1c0ffee0123456789abc''
     = Inr \<lparr>asset_id = ''665f1c0ffee0123456789abc'',
            asset_url = V_str ''/files/20240517093015123456_model.glb''\<rparr>"
proof -
  have wf: "wf_oid (new_oid env0)"
    by (simp add: wf_oid_def env0_simps)
  have fresh: "\<not> list_ex (generates (new_oid env0)) [Upload env1 file0, Get_test]"
    by (simp add: env0_simps env1_simps)
  from uploaded_id_resolves [OF upload0 wf fresh] upload0 wf fresh show ?thesis
    by simp
qed



text \<open>
  C7. After a successful upload the database holds, under the returned identifier, a
  record whose \<open>storage_path\<close> names a file of the file system, and whose \<open>size_bytes\<close>
  is the number of bytes of that file.
\<close>

theorem size_bytes_is_length_written:
  assumes ok: "fst (upload_model e st file) = Inr r"
  shows "\<exists>d doc bs.
           db (snd (upload_model e st file)) = Some d \<and>
           colls d ''asset'' (id_str r) = Some doc \<and>
           doc ''storage_path'' = Some (V_str (save_path st (now e) (filename file))) \<and>
           files (snd (upload_model e st file)) (save_path st (now e) (filename file)) = Some bs \<and>
           bs = content file \<and>
           doc ''size_bytes'' = Some (V_int (int (length bs)))"
proof -
  from upload_model_success [OF upload_model_result [OF ok]]
  obtain d where r: "r = \<lparr>id_str = new_oid e, url = public_url (now e) (filename file)\<rparr>"
    and st': "snd (upload_model e st file)
       = st\<lparr>files := (files st)(save_path st (now e) (filename file) \<mapsto> content file),
            db := Some (d\<lparr>colls := (colls d)(''asset'' :=
               (colls d ''asset'')(new_oid e \<mapsto>
                  (metadata st (now e) file)(''created_at'' \<mapsto> V_datetime (insert_time e))))\<rparr>)\<rparr>"
    by blast
  show ?thesis
    by (simp add: st' r metadata_def)
qed

theorem size_bytes_is_length_written_witness:
  "fst (upload_model env0 st0 file0)
     = Inr \<lparr>id_str = ''665f1c0ffee0123456789abc'', url = ''/files/20240517093015123456_model.glb''\<rparr> \<and>
   (\<exists>d doc bs.
      db (snd (upload_model env0 st0 file0)) = Some d \<and>
      colls d ''asset'' ''665f1c0ffee0123456789abc'' = Some doc \<and>
      doc ''storage_path'' = Some (V_str (save_path st0 (now env0) (filename file0))) \<and>
      files (snd (upload_model env0 st0 file0)) (save_path st0 (now env0) (filename file0)) = Some bs \<and>
      bs = content file0 \<and>
      doc ''size_bytes'' = Some (V_int (int (length bs))))"
proof -
  from size_bytes_is_length_written [OF upload0] upload0 show ?thesis
    by simp
qed

subsection \<open>Two uploads of the same file name\<close>

lemma valid_t0: "valid_datetime t0"
  by (simp add: valid_datetime_def t0_def)

lemma valid_t1: "valid_datetime t1"
  by (simp add: valid_datetime_def t0_def t1_def)

lemma t0_neq_t1: "t0 \<noteq> t1"
  by (simp add: t0_def t1_def)

lemma upload1:
  "fst (upload_model env1 (snd (upload_model env0 st0 file0)) file0)
   = Inr \<lparr>id_str = ''665f1c0ffee0123456789abd'', url = ''/files/20240517093015123457_model.glb''\<rparr>"
proof -
  from upload_model_db_Some [OF upload0]
  obtain d where "db (snd (upload_model env0 st0 file0)) = Some d" ..
  from upload_model_ok [OF allowed_file0 _ this, of env1] show ?thesis
    by (simp add: public_url_def save_name_def strftime_t1 env1_simps file0_simps)
qed

text \<open>
  C6. Two successful uploads of the same original file name at different times of the
  clock are stored under the names \<open>{timestamp}_{originalfilename}\<close> of their own
  timestamps; the names and the urls differ, and after the second upload each of the two
  files holds the bytes of its own upload.
\<close>

theorem distinct_timestamps_distinct_files:
  assumes v1: "valid_datetime (now e1)" and v2: "valid_datetime (now e2)"
    and ne: "now e1 \<noteq> now e2"
    and same: "filename f1 = filename f2"
    and ok1: "fst (upload_model e1 st f1) = Inr r1"
    and ok2: "fst (upload_model e2 (snd (upload_model e1 st f1)) f2) = Inr r2"
  shows "save_name (now e1) (filename f1) = strftime (now e1) @ ''_'' @ filename f1 \<and>
         save_name (now e2) (filename f2) = strftime (now e2) @ ''_'' @ filename f2 \<and>
         save_name (now e1) (filename f1) \<noteq> save_name (now e2) (filename f2) \<and>
         url r1 \<noteq> url r2 \<and>
         files (snd (upload_model e2 (snd (upload_model e1 st f1)) f2))
               (save_path st (now e1) (filename f1)) = Some (content f1) \<and>
         files (snd (upload_model e2 (snd (upload_model e1 st f1)) f2))
               (save_path st (now e2) (filename f2)) = Some (content f2)"
proof -
  let ?st1 = "snd (upload_model e1 st f1)"
  let ?st2 = "snd (upload_model e2 ?st1 f2)"
  let ?p1 = "save_path st (now e1) (filename f1)"
  let ?p2 = "save_path st (now e2) (filename f2)"
  from ne strftime_inj [OF v1 v2] have "strftime (now e1) \<noteq> strftime (now e2)"
    by blast
  then have names: "save_name (now e1) (filename f1) \<noteq> save_name (now e2) (filename f2)"
    by (simp add: save_name_eq_iff)
  from upload_model_success [OF upload_model_result [OF ok1]]
  have r1: "url r1 = public_url (now e1) (filename f1)"
    and f1: "files ?st1 ?p1 = Some (content f1)"
    by auto
  from upload_model_success [OF upload_model_result [OF ok2]]
  have r2: "url r2 = public_url (now e2) (filename f2)"
    and f2: "files ?st2 (save_path ?st1 (now e2) (filename f2)) = Some (content f2)"
    by auto
  have cwd1: "cwd ?st1 = cwd st" by (rule upload_model_cwd)
  have p2: "save_path ?st1 (now e2) (filename f2) = ?p2"
    by (rule save_path_cwd [OF cwd1])
  have "?p1 \<noteq> save_path ?st1 (now e2) (filename f2)"
    using names save_path_inj [of st ?st1 "now e1" "filename f1" "now e2" "filename f2"] cwd1
    by auto
  then have "files ?st2 ?p1 = files ?st1 ?p1"
    by (rule upload_model_files_other)
  with f1 have keep: "files ?st2 ?p1 = Some (content f1)" by simp
  from names have "url r1 \<noteq> url r2"
    by (simp add: r1 r2 public_url_def)
  with names keep f2 p2 show ?thesis
    by (simp add: save_name_def)
qed

theorem distinct_timestamps_distinct_files_witness:
  "valid_datetime (now env0) \<and> valid_datetime (now env1) \<and> now env0 \<noteq> now env1 \<and>
   fst (upload_model env0 st0 file0)
     = Inr \<lparr>id_str = ''665f1c0ffee0123456789abc'', url = ''/files/20240517093015123456_model.glb''\<rparr> \<and>
   fst (upload_model env1 (snd (upload_model env0 st0 file0)) file0)
     = Inr \<lparr>id_str = ''665f1c0ffee0123456789abd'', url = ''/files/20240517093015123457_model.glb''\<rparr> \<and>
   save_name (now env0) (filename file0) \<noteq> save_name (now env1) (filename file0) \<and>
   files (snd (upload_model env1 (snd (upload_model env0 st0 file0)) file0))
         (save_path st0 (now env0) (filename file0)) = Some (content file0) \<and>
   files (snd (upload_model env1 (snd (upload_model env0 st0 file0)) file0))
         (save_path st0 (now env1) (filename file0)) = Some (content file0)"
proof -
  have v0: "valid_datetime (now env0)" by (simp add: env0_simps valid_t0)
  have v1: "valid_datetime (now env1)" by (simp add: env1_simps valid_t1)
  have ne: "now env0 \<noteq> now env1" by (simp add: env0_simps env1_simps t0_neq_t1)
  from distinct_timestamps_distinct_files [OF v0 v1 ne refl upload0 upload1]
    v0 v1 ne upload0 upload1
  show ?thesis by blast
qed

subsection \<open>Where the bytes are written\<close>













subsection \<open>Looking up an asset\<close>

text \<open>
  C5. \<open>GET /asset/{id}\<close> answers 400 when the identifier is not a well-formed object
  identifier, and 404 when it is well formed and the collection of the connected
  database holds no record for it (a record that has expired is no longer held).
\<close>

theorem get_asset_invalid_or_missing:
  "(ObjectId i = None \<longrightarrow> get_asset st i = Inl (HTTPException 400 ''Invalid id'')) \<and>
   (\<forall>oid d. ObjectId i = Some oid \<and> db st = Some d \<and> colls d ''asset'' oid = None \<longrightarrow>
      get_asset st i = Inl (HTTPException 404 ''Not found or expired''))"
  by (simp add: get_asset_def)

theorem get_asset_invalid_or_missing_witness:
  "ObjectId ''not-an-object-id'' = None \<and>
   status_code (get_asset st0 ''not-an-object-id'') = 400 \<and>
   ObjectId ''665F1C0FFEE0123456789ABC'' = Some ''665f1c0ffee0123456789abc'' \<and>
   db st0 = Some db0 \<and> colls db0 ''asset'' ''665f1c0ffee0123456789abc'' = None \<and>
   status_code (get_asset st0 ''665F1C0FFEE0123456789ABC'') = 404"
proof -
  have a: "ObjectId ''not-an-object-id'' = None"
    by (simp add: ObjectId_def)
  have b: "ObjectId ''665F1C0FFEE0123456789ABC'' = Some ''665f1c0ffee0123456789abc''"
    by (rule ObjectId_upper_case)
  have c: "db st0 = Some db0" by (simp add: st0_simps)
  have d: "colls db0 ''asset'' ''665f1c0ffee0123456789abc'' = None" by (simp add: db0_def)
  from get_asset_invalid_or_missing [of "''not-an-object-id''" st0] a
  have "status_code (get_asset st0 ''not-an-object-id'') = 400" by simp
  moreover from get_asset_invalid_or_missing [of "''665F1C0FFEE0123456789ABC''" st0] b c d
  have "status_code (get_asset st0 ''665F1C0FFEE0123456789ABC'') = 404" by simp
  ultimately show ?thesis using a b c d by simp
qed

text \<open>
  C10. When the identifier is well formed and the record found for it has no \<open>url\<close>
  field, \<open>GET /asset/{id}\<close> answers 200 with the identifier exactly as it was given in
  the request and a null \<open>url\<close>.
\<close>

theorem get_asset_without_url:
  assumes "ObjectId i = Some oid" and "db st = Some d"
    and "colls d ''asset'' oid = Some doc" and "doc ''url'' = None"
  shows "get_asset st i = Inr \<lparr>asset_id = i, asset_url = V_null\<rparr> \<and>
         status_code (get_asset st i) = 200"
  using assms by (simp add: get_asset_def doc_get_def)

theorem get_asset_without_url_witness:
  "ObjectId ''665F1C0FFEE0123456789ABC'' = Some ''665f1c0ffee0123456789abc'' \<and>
   get_asset st_legacy ''665F1C0FFEE0123456789ABC''
     = Inr \<lparr>asset_id = ''665F1C0FFEE0123456789ABC'', asset_url = V_null\<rparr> \<and>
   status_code (get_asset st_legacy ''665F1C0FFEE0123456789ABC'') = 200"
proof -
  let ?d = "db0\<lparr>colls := (\<lambda>c. [''665f1c0ffee0123456789abc'' \<mapsto>
                                   [''filename'' \<mapsto> V_str ''legacy.glb'']])\<rparr>"
  have a: "db st_legacy = Some ?d"
    by (simp add: st_legacy_def)
  have b: "colls ?d ''asset'' ''665f1c0ffee0123456789abc''
      = Some [''filename'' \<mapsto> V_str ''legacy.glb'']"
    by simp
  have c: "[''filename'' \<mapsto> V_str ''legacy.glb''] ''url'' = None"
    by simp
  from get_asset_without_url [OF ObjectId_upper_case a b c] ObjectId_upper_case
  show ?thesis by blast
qed

subsection \<open>The diagnostic\<close>

text \<open>
  C9. \<open>GET /test\<close> answers 200 in every state, and the \<open>database\<close> entry of its answer
  tells how far the database could be reached: not initialised when there is no handle,
  an error when reading the name of the database raises, connected with an error when
  listing the collections fails, and connected and working exactly when the listing
  succeeds.
\<close>

theorem test_database_always_200:
  "status_code (test_database st) = 200 \<and>
   (\<exists>r. test_database st = Inr r \<and>
      database r =
        (case db st of
           None \<Rightarrow> Not_Initialized
         | Some d \<Rightarrow>
             (case db_name d of
                Attr_raises msg \<Rightarrow> Error (take 50 msg)
              | _ \<Rightarrow>
                  (case list_collection_names d of
                     Inr cs \<Rightarrow> Connected_Working
                   | Inl msg \<Rightarrow> Connected_Error (take 50 msg)))))"
  by (simp add: test_database_def probe_def list_collections_def Let_def
      split: option.split attr.split sum.split)

end
